theory Spec2Isabelle
  imports Complex_Main "HOL-Library.Log_Nat"
begin

section \<open>Single-precision arithmetic\<close>

text \<open>
  Both engines compute in the C++ type \<open>float\<close>: IEEE-754 binary32, every operation
  rounded on its own to nearest, ties to even. A float is a NaN, a signed infinity or a
  finite value given by its sign bit (\<open>True\<close> is negative) and its magnitude, an exact
  rational. Payloads of NaNs are not distinguished.
\<close>

datatype float = NaN | Inf bool | Fin bool rat

text \<open>\<open>ilog2 a\<close> is the binary exponent of a positive rational: \<open>2^e \<le> a < 2^(e+1)\<close>.\<close>

definition ilog2 :: "rat \<Rightarrow> int" where
  "ilog2 a =
     (let d = bitlen (fst (quotient_of a)) - bitlen (snd (quotient_of a))
      in if 2 powi d \<le> a then d else d - 1)"

text \<open>Rounding of a rational to the nearest integer, a tie going to the even one.\<close>

definition rhe :: "rat \<Rightarrow> int" where
  "rhe x =
     (let f = \<lfloor>x\<rfloor>; d = x - of_int f
      in if d < 1 / 2 then f
         else if 1 / 2 < d then f + 1
         else if even f then f else f + 1)"

text \<open>
  \<open>rndm s a\<close> rounds the exact magnitude \<open>a \<ge> 0\<close> of a result of sign \<open>s\<close> to binary32:
  24 bits of precision, the exponent of a normal number at least \<open>-126\<close> (below it the
  spacing stays \<open>2^-149\<close>: subnormal numbers, and underflow to a signed zero), and overflow
  to the infinity once the rounded magnitude reaches \<open>2^128\<close>.
\<close>

definition rndm :: "bool \<Rightarrow> rat \<Rightarrow> float" where
  "rndm s a =
     (if a = 0 then Fin s 0
      else let e = max (ilog2 a) (- 126);
               u = 2 powi (e - 23);
               r = of_int (rhe (a / u)) * u
           in if 2 powi 128 \<le> r then Inf s else Fin s r)"

text \<open>The signed exact value of a finite float, and rounding of a signed exact result;
  \<open>z\<close> is the sign given to an exact zero.\<close>

definition fval :: "bool \<Rightarrow> rat \<Rightarrow> rat" where
  "fval s m = (if s then - m else m)"

definition rnd :: "bool \<Rightarrow> rat \<Rightarrow> float" where
  "rnd z q = rndm (if q = 0 then z else q < 0) \<bar>q\<bar>"

text \<open>\<open>static_cast<float>\<close> of an \<open>int\<close>.\<close>

definition float_of_int :: "int \<Rightarrow> float" where
  "float_of_int i = rnd False (of_int i)"

text \<open>The four operations and unary minus.\<close>

fun fneg :: "float \<Rightarrow> float" where
  "fneg NaN = NaN"
| "fneg (Inf s) = Inf (\<not> s)"
| "fneg (Fin s m) = Fin (\<not> s) m"

fun fadd :: "float \<Rightarrow> float \<Rightarrow> float" where
  "fadd NaN y = NaN"
| "fadd x NaN = NaN"
| "fadd (Inf s) (Inf t) = (if s = t then Inf s else NaN)"
| "fadd (Inf s) (Fin t m) = Inf s"
| "fadd (Fin s m) (Inf t) = Inf t"
| "fadd (Fin s m) (Fin t n) = rnd (s \<and> t) (fval s m + fval t n)"

definition fsub :: "float \<Rightarrow> float \<Rightarrow> float" where
  "fsub x y = fadd x (fneg y)"

fun fmul :: "float \<Rightarrow> float \<Rightarrow> float" where
  "fmul NaN y = NaN"
| "fmul x NaN = NaN"
| "fmul (Inf s) (Inf t) = Inf (s \<noteq> t)"
| "fmul (Inf s) (Fin t m) = (if m = 0 then NaN else Inf (s \<noteq> t))"
| "fmul (Fin s m) (Inf t) = (if m = 0 then NaN else Inf (s \<noteq> t))"
| "fmul (Fin s m) (Fin t n) = rndm (s \<noteq> t) (m * n)"

fun fdiv :: "float \<Rightarrow> float \<Rightarrow> float" where
  "fdiv NaN y = NaN"
| "fdiv x NaN = NaN"
| "fdiv (Inf s) (Inf t) = NaN"
| "fdiv (Inf s) (Fin t m) = Inf (s \<noteq> t)"
| "fdiv (Fin s m) (Inf t) = Fin (s \<noteq> t) 0"
| "fdiv (Fin s m) (Fin t n) =
     (if n = 0 then (if m = 0 then NaN else Inf (s \<noteq> t))
      else rndm (s \<noteq> t) (m / n))"

text \<open>The comparison \<open>==\<close> of two floats: a NaN equals nothing, the two zeros are equal.\<close>

fun feq :: "float \<Rightarrow> float \<Rightarrow> bool" where
  "feq (Inf s) (Inf t) = (s = t)"
| "feq (Fin s m) (Fin t n) = (fval s m = fval t n)"
| "feq x y = False"

text \<open>
  \<open>is_float\<close>: the value is one that binary32 has, that is a NaN, an infinity, or a
  finite value whose magnitude is not negative and is left as it is by rounding.
  \<open>finite_float\<close>: such a value that is finite.
\<close>

fun is_float :: "float \<Rightarrow> bool" where
  "is_float (Fin s m) = (0 \<le> m \<and> rndm s m = Fin s m)"
| "is_float x = True"



text \<open>\<open>fsame\<close>: the same float, except that one may be \<open>+0\<close> where the other is \<open>-0\<close>.\<close>

fun fsame :: "float \<Rightarrow> float \<Rightarrow> bool" where
  "fsame (Fin s m) (Fin t n) = (m = n \<and> (s = t \<or> m = 0))"
| "fsame x y = (x = y)"

fun is_nan :: "float \<Rightarrow> bool" where
  "is_nan NaN = True"
| "is_nan x = False"

fun is_infinite :: "float \<Rightarrow> bool" where
  "is_infinite (Inf s) = True"
| "is_infinite x = False"


section \<open>The kinds of expression\<close>

datatype ExprType = Constant | Variable | Sum | Difference | Product | Quotient

section \<open>The single-variable engine (namespace \<open>singleVarDiff\<close>)\<close>

text \<open>
  The C++ type of an expression is its shape; the builders dispatch on it with
  \<open>if constexpr\<close>. \<open>SV_ZeroExpr\<close> and \<open>SV_OneExpr\<close> are the tagged constants
  \<open>Expression<Constant, Zero>\<close> and \<open>Expression<Constant, One>\<close>, \<open>SV_Constant\<close> is the
  general constant with its \<open>value\<close> field.
\<close>

datatype sv_Expression =
    SV_ZeroExpr
  | SV_OneExpr
  | SV_Constant float
  | SV_Variable
  | SV_Sum sv_Expression sv_Expression
  | SV_Difference sv_Expression sv_Expression
  | SV_Product sv_Expression sv_Expression
  | SV_Quotient sv_Expression sv_Expression

fun sv_exprType :: "sv_Expression \<Rightarrow> ExprType" where
  "sv_exprType SV_ZeroExpr = Constant"
| "sv_exprType SV_OneExpr = Constant"
| "sv_exprType (SV_Constant v) = Constant"
| "sv_exprType SV_Variable = Variable"
| "sv_exprType (SV_Sum l r) = Sum"
| "sv_exprType (SV_Difference l r) = Difference"
| "sv_exprType (SV_Product l r) = Product"
| "sv_exprType (SV_Quotient l r) = Quotient"

text \<open>The member \<open>value\<close>; only the three constant shapes have it.\<close>

fun sv_value :: "sv_Expression \<Rightarrow> float" where
  "sv_value SV_ZeroExpr = float_of_int 0"
| "sv_value SV_OneExpr = float_of_int 1"
| "sv_value (SV_Constant v) = v"

text \<open>\<open>operator()(float x)\<close>.\<close>

fun sv_eval :: "sv_Expression \<Rightarrow> float \<Rightarrow> float" where
  "sv_eval SV_ZeroExpr x = float_of_int 0"
| "sv_eval SV_OneExpr x = float_of_int 1"
| "sv_eval (SV_Constant v) x = v"
| "sv_eval SV_Variable x = x"
| "sv_eval (SV_Sum l r) x = fadd (sv_eval l x) (sv_eval r x)"
| "sv_eval (SV_Difference l r) x = fsub (sv_eval l x) (sv_eval r x)"
| "sv_eval (SV_Product l r) x = fmul (sv_eval l x) (sv_eval r x)"
| "sv_eval (SV_Quotient l r) x = fdiv (sv_eval l x) (sv_eval r x)"

text \<open>The four builders \<open>operator+\<close>, \<open>operator-\<close>, \<open>operator*\<close>, \<open>operator/\<close> on two expressions.\<close>

definition sv_plus :: "sv_Expression \<Rightarrow> sv_Expression \<Rightarrow> sv_Expression" where
  "sv_plus lhs rhs =
     (if lhs = SV_ZeroExpr then rhs
      else if rhs = SV_ZeroExpr then lhs
      else if sv_exprType lhs = Constant \<and> sv_exprType rhs = Constant
        then SV_Constant (fadd (sv_value lhs) (sv_value rhs))
      else SV_Sum lhs rhs)"

definition sv_minus :: "sv_Expression \<Rightarrow> sv_Expression \<Rightarrow> sv_Expression" where
  "sv_minus lhs rhs =
     (if rhs = SV_ZeroExpr then lhs
      else if sv_exprType lhs = Constant \<and> sv_exprType rhs = Constant
        then SV_Constant (fsub (sv_value lhs) (sv_value rhs))
      else SV_Difference lhs rhs)"

definition sv_times :: "sv_Expression \<Rightarrow> sv_Expression \<Rightarrow> sv_Expression" where
  "sv_times lhs rhs =
     (if lhs = SV_ZeroExpr \<or> rhs = SV_ZeroExpr then SV_ZeroExpr
      else if lhs = SV_OneExpr then rhs
      else if rhs = SV_OneExpr then lhs
      else if sv_exprType lhs = Constant \<and> sv_exprType rhs = Constant
        then SV_Constant (fmul (sv_value lhs) (sv_value rhs))
      else SV_Product lhs rhs)"

definition sv_divide :: "sv_Expression \<Rightarrow> sv_Expression \<Rightarrow> sv_Expression" where
  "sv_divide lhs rhs =
     (if rhs = SV_ZeroExpr then SV_ZeroExpr
      else if lhs = SV_ZeroExpr then SV_ZeroExpr
      else if rhs = SV_OneExpr then lhs
      else if sv_exprType lhs = Constant \<and> sv_exprType rhs = Constant
        then SV_Constant (fdiv (sv_value lhs) (sv_value rhs))
      else SV_Quotient lhs rhs)"

text \<open>\<open>dx()\<close>.\<close>

fun sv_dx :: "sv_Expression \<Rightarrow> sv_Expression" where
  "sv_dx SV_ZeroExpr = SV_ZeroExpr"
| "sv_dx SV_OneExpr = SV_ZeroExpr"
| "sv_dx (SV_Constant v) = SV_ZeroExpr"
| "sv_dx SV_Variable = SV_OneExpr"
| "sv_dx (SV_Sum l r) = sv_plus (sv_dx l) (sv_dx r)"
| "sv_dx (SV_Difference l r) = sv_minus (sv_dx l) (sv_dx r)"
| "sv_dx (SV_Product l r) = sv_plus (sv_times (sv_dx l) r) (sv_times l (sv_dx r))"
| "sv_dx (SV_Quotient l r) =
     sv_divide (sv_minus (sv_times (sv_dx l) r) (sv_times l (sv_dx r))) (sv_times r r)"

text \<open>The eight overloads that take a \<open>float\<close> on one side (\<open>ef\<close>: expression then
  float, \<open>fe\<close>: float then expression).\<close>

definition sv_plus_ef :: "sv_Expression \<Rightarrow> float \<Rightarrow> sv_Expression" where
  "sv_plus_ef lhs rhs = sv_plus lhs (SV_Constant rhs)"

definition sv_plus_fe :: "float \<Rightarrow> sv_Expression \<Rightarrow> sv_Expression" where
  "sv_plus_fe lhs rhs = sv_plus (SV_Constant lhs) rhs"

definition sv_minus_ef :: "sv_Expression \<Rightarrow> float \<Rightarrow> sv_Expression" where
  "sv_minus_ef lhs rhs = sv_plus lhs (SV_Constant (fneg rhs))"

definition sv_minus_fe :: "float \<Rightarrow> sv_Expression \<Rightarrow> sv_Expression" where
  "sv_minus_fe lhs rhs = sv_minus (SV_Constant lhs) rhs"

definition sv_times_ef :: "sv_Expression \<Rightarrow> float \<Rightarrow> sv_Expression" where
  "sv_times_ef lhs rhs = sv_times lhs (SV_Constant rhs)"

definition sv_times_fe :: "float \<Rightarrow> sv_Expression \<Rightarrow> sv_Expression" where
  "sv_times_fe lhs rhs = sv_times (SV_Constant lhs) rhs"

definition sv_divide_ef :: "sv_Expression \<Rightarrow> float \<Rightarrow> sv_Expression" where
  "sv_divide_ef lhs rhs = sv_divide lhs (SV_Constant rhs)"

definition sv_divide_fe :: "float \<Rightarrow> sv_Expression \<Rightarrow> sv_Expression" where
  "sv_divide_fe lhs rhs = sv_divide (SV_Constant lhs) rhs"

section \<open>The multi-variable engine (namespace \<open>multiVarDiff\<close>)\<close>

text \<open>
  A \<open>Variable\<close> object holds one field, \<open>initAddress\<close>, set to the object's own address
  when it is default-constructed and copied with the object. An \<open>EvalVariable\<close> pairs
  such an address with a value (its fields \<open>initAddress\<close> and \<open>value\<close>).
\<close>

record Expression_Variable =
  initAddress :: nat

record EvalVariable =
  ev_initAddress :: nat
  ev_value :: float

text \<open>Default construction of a \<open>Variable\<close> at address \<open>this\<close>, and its copy constructor.\<close>

definition Variable_at :: "nat \<Rightarrow> Expression_Variable" where
  "Variable_at this = \<lparr>initAddress = this\<rparr>"

definition Variable_copy :: "Expression_Variable \<Rightarrow> Expression_Variable" where
  "Variable_copy other = \<lparr>initAddress = initAddress other\<rparr>"

datatype mv_Expression =
    MV_Constant float
  | MV_Variable Expression_Variable
  | MV_Sum mv_Expression mv_Expression
  | MV_Difference mv_Expression mv_Expression
  | MV_Product mv_Expression mv_Expression
  | MV_Quotient mv_Expression mv_Expression

fun mv_exprType :: "mv_Expression \<Rightarrow> ExprType" where
  "mv_exprType (MV_Constant v) = Constant"
| "mv_exprType (MV_Variable v) = Variable"
| "mv_exprType (MV_Sum l r) = Sum"
| "mv_exprType (MV_Difference l r) = Difference"
| "mv_exprType (MV_Product l r) = Product"
| "mv_exprType (MV_Quotient l r) = Quotient"

fun mv_value :: "mv_Expression \<Rightarrow> float" where
  "mv_value (MV_Constant v) = v"

text \<open>
  \<open>Variable::operator=(float) const\<close>: the binding it returns, paired with the receiver
  as the call leaves it.
\<close>

definition mv_assign :: "Expression_Variable \<Rightarrow> float \<Rightarrow> EvalVariable \<times> Expression_Variable" where
  "mv_assign v c = (\<lparr>ev_initAddress = initAddress v, ev_value = c\<rparr>, v)"

text \<open>
  \<open>operator()\<close> takes one binding or more. On a \<open>Variable\<close> the overload for a single
  binding ends the scan that the variadic overload makes from the left.
\<close>

fun mv_eval_Variable :: "Expression_Variable \<Rightarrow> EvalVariable \<Rightarrow> EvalVariable list \<Rightarrow> float" where
  "mv_eval_Variable v x [] =
     (if ev_initAddress x = initAddress v then ev_value x else float_of_int 0)"
| "mv_eval_Variable v x (a # args) =
     (if ev_initAddress x = initAddress v then ev_value x else mv_eval_Variable v a args)"

fun mv_eval :: "mv_Expression \<Rightarrow> EvalVariable \<Rightarrow> EvalVariable list \<Rightarrow> float" where
  "mv_eval (MV_Constant v) x args = v"
| "mv_eval (MV_Variable v) x args = mv_eval_Variable v x args"
| "mv_eval (MV_Sum l r) x args = fadd (mv_eval l x args) (mv_eval r x args)"
| "mv_eval (MV_Difference l r) x args = fsub (mv_eval l x args) (mv_eval r x args)"
| "mv_eval (MV_Product l r) x args = fmul (mv_eval l x args) (mv_eval r x args)"
| "mv_eval (MV_Quotient l r) x args = fdiv (mv_eval l x args) (mv_eval r x args)"

text \<open>The four builders on two expressions.\<close>

definition mv_plus :: "mv_Expression \<Rightarrow> mv_Expression \<Rightarrow> mv_Expression" where
  "mv_plus lhs rhs =
     (if mv_exprType lhs = Constant \<and> mv_exprType rhs = Constant
        then MV_Constant (fadd (mv_value lhs) (mv_value rhs))
      else MV_Sum lhs rhs)"

definition mv_minus :: "mv_Expression \<Rightarrow> mv_Expression \<Rightarrow> mv_Expression" where
  "mv_minus lhs rhs =
     (if mv_exprType lhs = Constant \<and> mv_exprType rhs = Constant
        then MV_Constant (fsub (mv_value lhs) (mv_value rhs))
      else MV_Difference lhs rhs)"

definition mv_times :: "mv_Expression \<Rightarrow> mv_Expression \<Rightarrow> mv_Expression" where
  "mv_times lhs rhs =
     (if mv_exprType lhs = Constant \<and> mv_exprType rhs = Constant
        then MV_Constant (fmul (mv_value lhs) (mv_value rhs))
      else MV_Product lhs rhs)"

definition mv_divide :: "mv_Expression \<Rightarrow> mv_Expression \<Rightarrow> mv_Expression" where
  "mv_divide lhs rhs =
     (if mv_exprType lhs = Constant \<and> mv_exprType rhs = Constant
        then MV_Constant (fdiv (mv_value lhs) (mv_value rhs))
      else MV_Quotient lhs rhs)"

text \<open>
  \<open>dx(var)\<close>. A constant returns the value-initialised \<open>Constant{}\<close>, whose value is
  \<open>+0\<close>; a variable converts the \<open>int\<close> 1 or 0.
\<close>

fun mv_dx :: "mv_Expression \<Rightarrow> Expression_Variable \<Rightarrow> mv_Expression" where
  "mv_dx (MV_Constant v) var = MV_Constant (Fin False 0)"
| "mv_dx (MV_Variable v) var =
     MV_Constant (float_of_int (if initAddress var = initAddress v then 1 else 0))"
| "mv_dx (MV_Sum l r) var = mv_plus (mv_dx l var) (mv_dx r var)"
| "mv_dx (MV_Difference l r) var = mv_minus (mv_dx l var) (mv_dx r var)"
| "mv_dx (MV_Product l r) var =
     mv_plus (mv_times (mv_dx l var) r) (mv_times l (mv_dx r var))"
| "mv_dx (MV_Quotient l r) var =
     mv_divide (mv_minus (mv_times (mv_dx l var) r) (mv_times l (mv_dx r var)))
               (mv_times r r)"

text \<open>The eight overloads that take a \<open>float\<close> on one side: each builds its node at once,
  the float converted to a \<open>Constant\<close>.\<close>

definition mv_plus_ef :: "mv_Expression \<Rightarrow> float \<Rightarrow> mv_Expression" where
  "mv_plus_ef lhs rhs = MV_Sum lhs (MV_Constant rhs)"

definition mv_plus_fe :: "float \<Rightarrow> mv_Expression \<Rightarrow> mv_Expression" where
  "mv_plus_fe lhs rhs = MV_Sum (MV_Constant lhs) rhs"

definition mv_minus_ef :: "mv_Expression \<Rightarrow> float \<Rightarrow> mv_Expression" where
  "mv_minus_ef lhs rhs = MV_Difference lhs (MV_Constant rhs)"

definition mv_minus_fe :: "float \<Rightarrow> mv_Expression \<Rightarrow> mv_Expression" where
  "mv_minus_fe lhs rhs = MV_Difference (MV_Constant lhs) rhs"

definition mv_times_ef :: "mv_Expression \<Rightarrow> float \<Rightarrow> mv_Expression" where
  "mv_times_ef lhs rhs = MV_Product lhs (MV_Constant rhs)"

definition mv_times_fe :: "float \<Rightarrow> mv_Expression \<Rightarrow> mv_Expression" where
  "mv_times_fe lhs rhs = MV_Product (MV_Constant lhs) rhs"

definition mv_divide_ef :: "mv_Expression \<Rightarrow> float \<Rightarrow> mv_Expression" where
  "mv_divide_ef lhs rhs = MV_Quotient lhs (MV_Constant rhs)"

definition mv_divide_fe :: "float \<Rightarrow> mv_Expression \<Rightarrow> mv_Expression" where
  "mv_divide_fe lhs rhs = MV_Quotient (MV_Constant lhs) rhs"

section \<open>The example of \<open>main\<close>\<close>

text \<open>
  \<open>x\<close> and \<open>y\<close> are default-constructed at the addresses \<open>ax\<close> and \<open>ay\<close>, \<open>z\<close> is a copy of
  \<open>x\<close>; the expression is \<open>x * z + 4 * y * y / (x + 5)\<close>, the \<open>int\<close> literals converted to
  \<open>float\<close> at the call, and both derivatives are evaluated at \<open>(x = 10, y = 200)\<close>.
\<close>

definition main_expression :: "nat \<Rightarrow> nat \<Rightarrow> mv_Expression" where
  "main_expression ax ay =
     (let x = Variable_at ax; y = Variable_at ay; z = Variable_copy x
      in mv_plus (mv_times (MV_Variable x) (MV_Variable z))
           (mv_divide
              (mv_times (mv_times_fe (float_of_int 4) (MV_Variable y)) (MV_Variable y))
              (mv_plus_ef (MV_Variable x) (float_of_int 5))))"

definition main_dExpr_dx :: "nat \<Rightarrow> nat \<Rightarrow> float" where
  "main_dExpr_dx ax ay =
     (let x = Variable_at ax; y = Variable_at ay
      in mv_eval (mv_dx (main_expression ax ay) x)
           (fst (mv_assign x (float_of_int 10))) [fst (mv_assign y (float_of_int 200))])"

definition main_dExpr_dy :: "nat \<Rightarrow> nat \<Rightarrow> float" where
  "main_dExpr_dy ax ay =
     (let x = Variable_at ax; y = Variable_at ay
      in mv_eval (mv_dx (main_expression ax ay) y)
           (fst (mv_assign x (float_of_int 10))) [fst (mv_assign y (float_of_int 200))])"


section \<open>Facts about the arithmetic\<close>

lemma float_of_int_0: "float_of_int 0 = Fin False 0"
  by code_simp

lemma float_of_int_1: "float_of_int 1 = Fin False 1"
  by code_simp

lemma fdiv_by_zero: "is_nan (fdiv a (Fin s 0)) \<or> is_infinite (fdiv a (Fin s 0))"
  by (cases a) simp_all

subsection \<open>The binary exponent and the integer rounding\<close>












subsection \<open>Floats that differ at most in the sign of a zero\<close>

lemma fsame_refl: "fsame x x"
  by (cases x) simp_all

lemma fsame_sym: "fsame x y \<Longrightarrow> fsame y x"
  by (cases x; cases y) auto


lemma rndm_zero: "rndm s 0 = Fin s 0"
  by (simp add: rndm_def)






lemma fadd_zero_left: "is_float y \<Longrightarrow> fsame (fadd (Fin z 0) y) y"
  by (cases y) (auto simp: rnd_def fval_def rndm_zero)




lemma rnd_zero: "rnd z 0 = Fin z 0"
  by (simp add: rnd_def rndm_zero)




lemma is_float_zero: "is_float (Fin s 0)"
  by (simp add: rndm_zero)







section \<open>Facts about the engines\<close>





lemma mv_eval_times:
  "mv_eval (mv_times A B) x args = fmul (mv_eval A x args) (mv_eval B x args)"
  by (cases A; cases B) (simp_all add: mv_times_def)

lemma mv_eval_plus:
  "mv_eval (mv_plus A B) x args = fadd (mv_eval A x args) (mv_eval B x args)"
  by (cases A; cases B) (simp_all add: mv_plus_def)



text \<open>
  With finite values the two sides of the product rule can still differ in the sign of
  a zero: for \<open>f\<close> the literal zero and \<open>g = 1 - x\<close> at \<open>x = 5\<close> the derivative of \<open>f * g\<close>
  is the literal zero, which evaluates to \<open>+0\<close>, while \<open>0 * (-4) + 0 * (-1)\<close> is \<open>-0\<close>.
\<close>

lemma sv_product_rule_sign_of_zero:
  "sv_minus SV_OneExpr SV_Variable = SV_Difference SV_OneExpr SV_Variable
   \<and> sv_eval (sv_dx (sv_times SV_ZeroExpr (SV_Difference SV_OneExpr SV_Variable)))
         (Fin False 5) = Fin False 0
   \<and> fadd (fmul (sv_eval (sv_dx SV_ZeroExpr) (Fin False 5))
                (sv_eval (SV_Difference SV_OneExpr SV_Variable) (Fin False 5)))
          (fmul (sv_eval SV_ZeroExpr (Fin False 5))
                (sv_eval (sv_dx (SV_Difference SV_OneExpr SV_Variable)) (Fin False 5)))
       = Fin True 0"
  by code_simp

subsection \<open>An expression combined with a float\<close>

lemma rndm_sign: "rndm s a = Fin s r \<Longrightarrow> rndm t a = Fin t r"
  by (simp add: rndm_def Let_def split: if_splits)

lemma is_float_fneg: "is_float c \<Longrightarrow> is_float (fneg c)"
  by (cases c) (auto intro: rndm_sign)

lemma fadd_zero_fneg:
  assumes "is_float c" "c \<noteq> Fin False 0"
  shows "fadd (Fin False 0) (fneg c) = fneg c"
proof (cases c)
  case (Fin s m)
  with assms have m: "0 \<le> m" and r: "rndm s m = Fin s m" by simp_all
  show ?thesis
  proof (cases "m = 0")
    case True
    with assms(2) Fin have "s" by simp
    with True show ?thesis by (simp add: Fin rnd_def fval_def rndm_zero)
  next
    case False
    with m have "0 < m" by simp
    then show ?thesis using rndm_sign [OF r, of "\<not> s"]
      by (cases s) (simp_all add: Fin rnd_def fval_def)
  qed
qed simp_all

lemma mv_eval_minus:
  "mv_eval (mv_minus A B) x args = fsub (mv_eval A x args) (mv_eval B x args)"
  by (cases A; cases B) (simp_all add: mv_minus_def)

lemma mv_eval_divide:
  "mv_eval (mv_divide A B) x args = fdiv (mv_eval A x args) (mv_eval B x args)"
  by (cases A; cases B) (simp_all add: mv_divide_def)

lemma sv_minus_ef_eval:
  assumes "e \<noteq> SV_ZeroExpr"
  shows "sv_eval (sv_minus_ef e c) b = sv_eval (sv_minus e (SV_Constant c)) b"
  using assms by (cases e) (simp_all add: sv_minus_ef_def sv_plus_def sv_minus_def fsub_def)

lemma sv_minus_ef_eval_ZeroExpr:
  "sv_eval (sv_minus_ef SV_ZeroExpr c) b = fneg c"
  "sv_eval (sv_minus SV_ZeroExpr (SV_Constant c)) b = fadd (Fin False 0) (fneg c)"
  by (simp_all add: sv_minus_ef_def sv_plus_def sv_minus_def fsub_def float_of_int_0)

lemma sv_minus_ef_eval_exact:
  assumes "e \<noteq> SV_ZeroExpr \<or> (is_float c \<and> c \<noteq> Fin False 0)"
  shows "sv_eval (sv_minus_ef e c) b = sv_eval (sv_minus e (SV_Constant c)) b"
proof (cases "e = SV_ZeroExpr")
  case True
  with assms have "is_float c" "c \<noteq> Fin False 0" by simp_all
  then have "fadd (Fin False 0) (fneg c) = fneg c" by (rule fadd_zero_fneg)
  then show ?thesis unfolding True sv_minus_ef_eval_ZeroExpr by (rule sym)
next
  case False
  then show ?thesis by (rule sv_minus_ef_eval)
qed

lemma sv_minus_ef_eval_fsame:
  assumes "e \<noteq> SV_ZeroExpr \<or> is_float c"
  shows "fsame (sv_eval (sv_minus_ef e c) b) (sv_eval (sv_minus e (SV_Constant c)) b)"
proof (cases "e = SV_ZeroExpr")
  case True
  with assms have "is_float (fneg c)" by (simp add: is_float_fneg)
  then have "fsame (fadd (Fin False 0) (fneg c)) (fneg c)" by (rule fadd_zero_left)
  then show ?thesis unfolding True sv_minus_ef_eval_ZeroExpr by (rule fsame_sym)
next
  case False
  then have "sv_eval (sv_minus_ef e c) b = sv_eval (sv_minus e (SV_Constant c)) b"
    by (rule sv_minus_ef_eval)
  then show ?thesis by (simp add: fsame_refl)
qed


text \<open>
  In the single-variable engine \<open>e - c\<close> and the difference of \<open>e\<close> and the constant \<open>c\<close>
  evaluate to zeros of opposite sign when \<open>e\<close> is the literal zero and \<open>c\<close> is \<open>+0\<close>:
  the first is the constant \<open>-c\<close>, the second the folded \<open>0 - c\<close>.
\<close>

lemma sv_minus_ef_sign_of_zero:
  "sv_eval (sv_minus_ef SV_ZeroExpr (Fin False 0)) (Fin False 7) = Fin True 0
   \<and> sv_eval (sv_minus SV_ZeroExpr (SV_Constant (Fin False 0))) (Fin False 7) = Fin False 0"
  by code_simp

section \<open>Facts about the example of \<open>main\<close>\<close>

lemma main_dExpr_dx_addresses: "ax \<noteq> ay \<Longrightarrow> main_dExpr_dx ax ay = main_dExpr_dx 0 1"
  by (simp add: main_dExpr_dx_def main_expression_def Let_def Variable_at_def
      Variable_copy_def mv_assign_def mv_plus_def mv_minus_def mv_times_def
      mv_divide_def mv_times_fe_def mv_plus_ef_def)

lemma main_dExpr_dy_addresses: "ax \<noteq> ay \<Longrightarrow> main_dExpr_dy ax ay = main_dExpr_dy 0 1"
  by (simp add: main_dExpr_dy_def main_expression_def Let_def Variable_at_def
      Variable_copy_def mv_assign_def mv_plus_def mv_minus_def mv_times_def
      mv_divide_def mv_times_fe_def mv_plus_ef_def)

lemma main_dExpr_dx_0_1: "main_dExpr_dx 0 1 = Fin True (2830791 / 4096)"
  by code_simp

lemma main_dExpr_dy_0_1: "main_dExpr_dy 0 1 = Fin False (13981013 / 131072)"
  by code_simp

lemma float_20_minus_160000_over_225:
  "fsub (float_of_int 20) (fdiv (float_of_int 160000) (float_of_int 225))
     = Fin True (2830791 / 4096)"
  by code_simp

lemma float_20_minus_320000_over_225:
  "fsub (float_of_int 20) (fdiv (float_of_int 320000) (float_of_int 225))
     = Fin True (2871751 / 2048)"
  by code_simp

lemma float_1600_over_15:
  "fdiv (fmul (float_of_int 8) (float_of_int 200)) (fadd (float_of_int 10) (float_of_int 5))
     = Fin False (13981013 / 131072)"
  by code_simp

section \<open>Claims\<close>

text \<open>
  C1. Single-variable engine: a quotient whose right operand is the literal-zero constant
  is the literal-zero constant, whatever the left operand; it is neither a quotient node
  nor a constant holding an infinity, and it evaluates to \<open>+0\<close>.
\<close>

theorem C1_sv_divide_ZeroExpr:
  "sv_divide x SV_ZeroExpr = SV_ZeroExpr
   \<and> sv_exprType (sv_divide x SV_ZeroExpr) \<noteq> Quotient
   \<and> sv_eval (sv_divide x SV_ZeroExpr) b = Fin False 0"
  by (simp add: sv_divide_def float_of_int_0)

text \<open>
  C2. The example of \<open>main\<close>, with \<open>x\<close> and \<open>y\<close> at distinct addresses. The derivative with
  respect to \<open>x\<close>, evaluated at \<open>x = 10, y = 200\<close>, is the float \<open>20 - 160000/225\<close>, that is
  \<open>-2830791/4096\<close> (about \<open>-691.11\<close>); the derivative with respect to \<open>y\<close> is the float
  \<open>8*200/(10+5)\<close>, that is \<open>13981013/131072\<close> (about \<open>106.67\<close>).
\<close>

theorem C2_main_example:
  assumes "ax \<noteq> ay"
  shows "main_dExpr_dx ax ay
           = fsub (float_of_int 20) (fdiv (float_of_int 160000) (float_of_int 225))
         \<and> main_dExpr_dx ax ay = Fin True (2830791 / 4096)
         \<and> main_dExpr_dy ax ay
           = fdiv (fmul (float_of_int 8) (float_of_int 200))
                  (fadd (float_of_int 10) (float_of_int 5))
         \<and> main_dExpr_dy ax ay = Fin False (13981013 / 131072)"
proof -
  have dx: "main_dExpr_dx ax ay = Fin True (2830791 / 4096)"
    using main_dExpr_dx_addresses [OF assms] main_dExpr_dx_0_1 by (rule trans)
  have dy: "main_dExpr_dy ax ay = Fin False (13981013 / 131072)"
    using main_dExpr_dy_addresses [OF assms] main_dExpr_dy_0_1 by (rule trans)
  show ?thesis
    unfolding float_20_minus_160000_over_225 float_1600_over_15
    using dx dy by simp
qed

theorem C2_main_example_witness:
  "(0::nat) \<noteq> 1
   \<and> main_dExpr_dx 0 1 = Fin True (2830791 / 4096)
   \<and> main_dExpr_dy 0 1 = Fin False (13981013 / 131072)"
proof -
  have h: "(0::nat) \<noteq> 1" by simp
  from C2_main_example [OF h] h show ?thesis by blast
qed

theorem C2_main_example_counterexample:
  "main_dExpr_dx 0 1
     \<noteq> fsub (float_of_int 20) (fdiv (float_of_int 320000) (float_of_int 225))
   \<and> \<not> feq (main_dExpr_dx 0 1)
           (fsub (float_of_int 20) (fdiv (float_of_int 320000) (float_of_int 225)))"
  unfolding main_dExpr_dx_0_1 float_20_minus_320000_over_225
  by (simp add: fval_def)

text \<open>
  C3. Multi-variable engine: the overload \<open>operator+(Expression, float)\<close> applied to the
  constant 2 and the float 3 returns a \<open>Sum\<close> node whose two children are constants, where
  the builder on the two constants returns the single constant 5.
\<close>

theorem C3_mv_float_overload_unfolded:
  "mv_plus_ef (MV_Constant (Fin False 2)) (Fin False 3)
     = MV_Sum (MV_Constant (Fin False 2)) (MV_Constant (Fin False 3))
   \<and> mv_plus (MV_Constant (Fin False 2)) (MV_Constant (Fin False 3))
     = MV_Constant (Fin False 5)"
  by code_simp

text \<open>
  C4. Single-variable engine: an expression combined with a float is, in structure and
  so in evaluation, the builder of the same operator applied to the expression and the
  float as a general constant, in the same order, for \<open>e + c\<close>, \<open>c + e\<close>, \<open>c - e\<close>,
  \<open>e * c\<close>, \<open>c * e\<close>, \<open>e / c\<close> and \<open>c / e\<close>; \<open>e - c\<close> is the builder of the sum applied to
  \<open>e\<close> and the constant \<open>-c\<close>, and at every binding it evaluates to the float that the
  builder of the difference on \<open>e\<close> and the constant \<open>c\<close> evaluates to, except that for
  \<open>e\<close> the literal zero and \<open>c = +0\<close> the two are zeros of opposite sign. Multi-variable
  engine: each of the eight overloads evaluates at every binding to the float that the
  builder of its operator on the expression and the float as a constant evaluates to,
  and for an expression that is not a constant it returns the very expression that the
  builder returns.
\<close>

theorem C4_float_overloads:
  "sv_plus_ef e c = sv_plus e (SV_Constant c)
   \<and> sv_plus_fe c e = sv_plus (SV_Constant c) e
   \<and> sv_minus_fe c e = sv_minus (SV_Constant c) e
   \<and> sv_times_ef e c = sv_times e (SV_Constant c)
   \<and> sv_times_fe c e = sv_times (SV_Constant c) e
   \<and> sv_divide_ef e c = sv_divide e (SV_Constant c)
   \<and> sv_divide_fe c e = sv_divide (SV_Constant c) e
   \<and> sv_minus_ef e c = sv_plus e (SV_Constant (fneg c))
   \<and> (e \<noteq> SV_ZeroExpr \<or> (is_float c \<and> c \<noteq> Fin False 0) \<longrightarrow>
        sv_eval (sv_minus_ef e c) b = sv_eval (sv_minus e (SV_Constant c)) b)
   \<and> (e \<noteq> SV_ZeroExpr \<or> is_float c \<longrightarrow>
        fsame (sv_eval (sv_minus_ef e c) b) (sv_eval (sv_minus e (SV_Constant c)) b))
   \<and> (mv_exprType m \<noteq> Constant \<longrightarrow>
        mv_plus_ef m c = mv_plus m (MV_Constant c)
        \<and> mv_plus_fe c m = mv_plus (MV_Constant c) m
        \<and> mv_minus_ef m c = mv_minus m (MV_Constant c)
        \<and> mv_minus_fe c m = mv_minus (MV_Constant c) m
        \<and> mv_times_ef m c = mv_times m (MV_Constant c)
        \<and> mv_times_fe c m = mv_times (MV_Constant c) m
        \<and> mv_divide_ef m c = mv_divide m (MV_Constant c)
        \<and> mv_divide_fe c m = mv_divide (MV_Constant c) m)
   \<and> mv_eval (mv_plus_ef m c) x args = mv_eval (mv_plus m (MV_Constant c)) x args
   \<and> mv_eval (mv_plus_fe c m) x args = mv_eval (mv_plus (MV_Constant c) m) x args
   \<and> mv_eval (mv_minus_ef m c) x args = mv_eval (mv_minus m (MV_Constant c)) x args
   \<and> mv_eval (mv_minus_fe c m) x args = mv_eval (mv_minus (MV_Constant c) m) x args
   \<and> mv_eval (mv_times_ef m c) x args = mv_eval (mv_times m (MV_Constant c)) x args
   \<and> mv_eval (mv_times_fe c m) x args = mv_eval (mv_times (MV_Constant c) m) x args
   \<and> mv_eval (mv_divide_ef m c) x args = mv_eval (mv_divide m (MV_Constant c)) x args
   \<and> mv_eval (mv_divide_fe c m) x args = mv_eval (mv_divide (MV_Constant c) m) x args"
proof -
  have sv: "sv_plus_ef e c = sv_plus e (SV_Constant c)
      \<and> sv_plus_fe c e = sv_plus (SV_Constant c) e
      \<and> sv_minus_fe c e = sv_minus (SV_Constant c) e
      \<and> sv_times_ef e c = sv_times e (SV_Constant c)
      \<and> sv_times_fe c e = sv_times (SV_Constant c) e
      \<and> sv_divide_ef e c = sv_divide e (SV_Constant c)
      \<and> sv_divide_fe c e = sv_divide (SV_Constant c) e
      \<and> sv_minus_ef e c = sv_plus e (SV_Constant (fneg c))"
    by (simp add: sv_plus_ef_def sv_plus_fe_def sv_minus_ef_def sv_minus_fe_def
        sv_times_ef_def sv_times_fe_def sv_divide_ef_def sv_divide_fe_def)
  have mv: "mv_exprType m \<noteq> Constant \<Longrightarrow>
      mv_plus_ef m c = mv_plus m (MV_Constant c)
      \<and> mv_plus_fe c m = mv_plus (MV_Constant c) m
      \<and> mv_minus_ef m c = mv_minus m (MV_Constant c)
      \<and> mv_minus_fe c m = mv_minus (MV_Constant c) m
      \<and> mv_times_ef m c = mv_times m (MV_Constant c)
      \<and> mv_times_fe c m = mv_times (MV_Constant c) m
      \<and> mv_divide_ef m c = mv_divide m (MV_Constant c)
      \<and> mv_divide_fe c m = mv_divide (MV_Constant c) m"
    by (simp add: mv_plus_ef_def mv_plus_fe_def mv_minus_ef_def mv_minus_fe_def
        mv_times_ef_def mv_times_fe_def mv_divide_ef_def mv_divide_fe_def
        mv_plus_def mv_minus_def mv_times_def mv_divide_def)
  have ev: "mv_eval (mv_plus_ef m c) x args = mv_eval (mv_plus m (MV_Constant c)) x args
      \<and> mv_eval (mv_plus_fe c m) x args = mv_eval (mv_plus (MV_Constant c) m) x args
      \<and> mv_eval (mv_minus_ef m c) x args = mv_eval (mv_minus m (MV_Constant c)) x args
      \<and> mv_eval (mv_minus_fe c m) x args = mv_eval (mv_minus (MV_Constant c) m) x args
      \<and> mv_eval (mv_times_ef m c) x args = mv_eval (mv_times m (MV_Constant c)) x args
      \<and> mv_eval (mv_times_fe c m) x args = mv_eval (mv_times (MV_Constant c) m) x args
      \<and> mv_eval (mv_divide_ef m c) x args = mv_eval (mv_divide m (MV_Constant c)) x args
      \<and> mv_eval (mv_divide_fe c m) x args = mv_eval (mv_divide (MV_Constant c) m) x args"
    by (simp add: mv_eval_plus mv_eval_minus mv_eval_times mv_eval_divide
        mv_plus_ef_def mv_plus_fe_def mv_minus_ef_def mv_minus_fe_def
        mv_times_ef_def mv_times_fe_def mv_divide_ef_def mv_divide_fe_def)
  show ?thesis
    using sv mv ev sv_minus_ef_eval_exact [of e c b] sv_minus_ef_eval_fsame [of e c b]
    by blast
qed

theorem C4_float_overloads_witness:
  "SV_Variable \<noteq> SV_ZeroExpr
   \<and> sv_eval (sv_minus_ef SV_Variable (Fin False 1)) (Fin False 3)
       = sv_eval (sv_minus SV_Variable (SV_Constant (Fin False 1))) (Fin False 3)
   \<and> is_float (Fin False 1) \<and> Fin False 1 \<noteq> Fin False 0
   \<and> sv_eval (sv_minus_ef SV_ZeroExpr (Fin False 1)) (Fin False 3)
       = sv_eval (sv_minus SV_ZeroExpr (SV_Constant (Fin False 1))) (Fin False 3)
   \<and> is_float (Fin False 0)
   \<and> fsame (sv_eval (sv_minus_ef SV_ZeroExpr (Fin False 0)) (Fin False 3))
        (sv_eval (sv_minus SV_ZeroExpr (SV_Constant (Fin False 0))) (Fin False 3))
   \<and> mv_exprType (MV_Variable (Variable_at 0)) \<noteq> Constant
   \<and> mv_minus_ef (MV_Variable (Variable_at 0)) (Fin False 1)
       = mv_minus (MV_Variable (Variable_at 0)) (MV_Constant (Fin False 1))
   \<and> mv_divide_fe (Fin False 1) (MV_Variable (Variable_at 0))
       = mv_divide (MV_Constant (Fin False 1)) (MV_Variable (Variable_at 0))
   \<and> mv_eval (mv_plus_ef (MV_Constant (Fin False 2)) (Fin False 3))
        \<lparr>ev_initAddress = 0, ev_value = Fin False 3\<rparr> []
       = mv_eval (mv_plus (MV_Constant (Fin False 2)) (MV_Constant (Fin False 3)))
           \<lparr>ev_initAddress = 0, ev_value = Fin False 3\<rparr> []"
proof -
  have a: "SV_Variable \<noteq> SV_ZeroExpr" by simp
  have b: "mv_exprType (MV_Variable (Variable_at 0)) \<noteq> Constant" by simp
  have c: "is_float (Fin False 1)" by code_simp
  have d: "Fin False 1 \<noteq> Fin False 0" by simp
  have e: "is_float (Fin False 0)" by (simp add: rndm_zero)
  note t1 = C4_float_overloads [of SV_Variable "Fin False 1" "Fin False 3"
      "MV_Variable (Variable_at 0)" "\<lparr>ev_initAddress = 0, ev_value = Fin False 3\<rparr>" "[]"]
  note t2 = C4_float_overloads [of SV_ZeroExpr "Fin False 1" "Fin False 3"
      "MV_Constant (Fin False 2)" "\<lparr>ev_initAddress = 0, ev_value = Fin False 3\<rparr>" "[]"]
  note t3 = C4_float_overloads [of SV_ZeroExpr "Fin False 0" "Fin False 3"
      "MV_Constant (Fin False 2)" "\<lparr>ev_initAddress = 0, ev_value = Fin False 3\<rparr>" "[]"]
  note t4 = C4_float_overloads [of SV_ZeroExpr "Fin False 3" "Fin False 3"
      "MV_Constant (Fin False 2)" "\<lparr>ev_initAddress = 0, ev_value = Fin False 3\<rparr>" "[]"]
  from t1 a have 1: "sv_eval (sv_minus_ef SV_Variable (Fin False 1)) (Fin False 3)
       = sv_eval (sv_minus SV_Variable (SV_Constant (Fin False 1))) (Fin False 3)" by blast
  from t2 c d have 2: "sv_eval (sv_minus_ef SV_ZeroExpr (Fin False 1)) (Fin False 3)
       = sv_eval (sv_minus SV_ZeroExpr (SV_Constant (Fin False 1))) (Fin False 3)" by blast
  from t3 e have 3: "fsame (sv_eval (sv_minus_ef SV_ZeroExpr (Fin False 0)) (Fin False 3))
        (sv_eval (sv_minus SV_ZeroExpr (SV_Constant (Fin False 0))) (Fin False 3))" by blast
  from t1 b have 4: "mv_minus_ef (MV_Variable (Variable_at 0)) (Fin False 1)
       = mv_minus (MV_Variable (Variable_at 0)) (MV_Constant (Fin False 1))
   \<and> mv_divide_fe (Fin False 1) (MV_Variable (Variable_at 0))
       = mv_divide (MV_Constant (Fin False 1)) (MV_Variable (Variable_at 0))" by blast
  from t4 have 5: "mv_eval (mv_plus_ef (MV_Constant (Fin False 2)) (Fin False 3))
        \<lparr>ev_initAddress = 0, ev_value = Fin False 3\<rparr> []
       = mv_eval (mv_plus (MV_Constant (Fin False 2)) (MV_Constant (Fin False 3)))
           \<lparr>ev_initAddress = 0, ev_value = Fin False 3\<rparr> []" by blast
  from a b c d e 1 2 3 4 5 show ?thesis by blast
qed

theorem C4_float_overloads_counterexample:
  "sv_minus_ef SV_Variable (Fin False 1) \<noteq> sv_minus SV_Variable (SV_Constant (Fin False 1))
   \<and> mv_plus_ef (MV_Constant (Fin False 2)) (Fin False 3)
       \<noteq> mv_plus (MV_Constant (Fin False 2)) (MV_Constant (Fin False 3))"
  by (simp add: sv_minus_ef_def sv_plus_def sv_minus_def mv_plus_ef_def mv_plus_def)

text \<open>
  C5. Single-variable engine: the identity eliminations return the operand itself or the
  literal-zero constant: \<open>x + 0\<close>, \<open>0 + x\<close>, \<open>x - 0\<close>, \<open>x * 1\<close>, \<open>1 * x\<close> and \<open>x / 1\<close> are \<open>x\<close>;
  \<open>x * 0\<close>, \<open>0 * x\<close> and \<open>0 / x\<close> are the literal zero.
\<close>

theorem C5_sv_identity_elimination:
  "sv_plus x SV_ZeroExpr = x
   \<and> sv_plus SV_ZeroExpr x = x
   \<and> sv_minus x SV_ZeroExpr = x
   \<and> sv_times x SV_OneExpr = x
   \<and> sv_times SV_OneExpr x = x
   \<and> sv_times x SV_ZeroExpr = SV_ZeroExpr
   \<and> sv_times SV_ZeroExpr x = SV_ZeroExpr
   \<and> sv_divide x SV_OneExpr = x
   \<and> sv_divide SV_ZeroExpr x = SV_ZeroExpr"
  by (simp add: sv_plus_def sv_minus_def sv_times_def sv_divide_def)




text \<open>
  C7. Multi-variable engine: a \<open>Variable\<close> leaf evaluates to the value of the first
  binding of the list whose address is the leaf's, and to \<open>+0\<close> when no binding has it;
  the result is a float in every case.
\<close>

theorem C7_mv_eval_Variable_first_match:
  "mv_eval (MV_Variable v) x args =
     (case find (\<lambda>b. ev_initAddress b = initAddress v) (x # args) of
        Some b \<Rightarrow> ev_value b
      | None \<Rightarrow> Fin False 0)"
proof (induction args arbitrary: x)
  case Nil
  show ?case by (simp add: float_of_int_0)
next
  case (Cons a args)
  from Cons.IH [of a] show ?case by simp
qed

text \<open>
  C8. Multi-variable engine: the derivative of a \<open>Variable\<close> with respect to a \<open>Variable\<close>
  is the constant 1 when the two hold the same address and the constant 0 otherwise; a
  copy holds the address of its original, and two default-constructed variables hold the
  same address only when they are at the same address.
\<close>

theorem C8_mv_dx_Variable_identity:
  "mv_dx (MV_Variable v) w =
     MV_Constant (if initAddress w = initAddress v then Fin False 1 else Fin False 0)
   \<and> mv_dx (MV_Variable v) (Variable_copy v) = MV_Constant (Fin False 1)
   \<and> mv_dx (MV_Variable (Variable_copy v)) v = MV_Constant (Fin False 1)
   \<and> (mv_dx (MV_Variable (Variable_at a)) (Variable_at b) = MV_Constant (Fin False 1))
       = (a = b)"
  by (simp add: Variable_copy_def Variable_at_def float_of_int_0 float_of_int_1)

text \<open>
  C9. Both engines: each of the four builders, on two general constants, returns one
  constant leaf holding the float result of the operation on the two values; a division
  by a general constant of value zero (of either sign) is folded like any other, and the
  constant it returns holds an infinity or a NaN.
\<close>

theorem C9_constant_folding:
  "sv_plus (SV_Constant a) (SV_Constant b) = SV_Constant (fadd a b)
   \<and> sv_minus (SV_Constant a) (SV_Constant b) = SV_Constant (fsub a b)
   \<and> sv_times (SV_Constant a) (SV_Constant b) = SV_Constant (fmul a b)
   \<and> sv_divide (SV_Constant a) (SV_Constant b) = SV_Constant (fdiv a b)
   \<and> mv_plus (MV_Constant a) (MV_Constant b) = MV_Constant (fadd a b)
   \<and> mv_minus (MV_Constant a) (MV_Constant b) = MV_Constant (fsub a b)
   \<and> mv_times (MV_Constant a) (MV_Constant b) = MV_Constant (fmul a b)
   \<and> mv_divide (MV_Constant a) (MV_Constant b) = MV_Constant (fdiv a b)
   \<and> (is_nan (sv_value (sv_divide (SV_Constant a) (SV_Constant (Fin s 0))))
        \<or> is_infinite (sv_value (sv_divide (SV_Constant a) (SV_Constant (Fin s 0)))))
   \<and> (is_nan (mv_value (mv_divide (MV_Constant a) (MV_Constant (Fin s 0))))
        \<or> is_infinite (mv_value (mv_divide (MV_Constant a) (MV_Constant (Fin s 0)))))"
  using fdiv_by_zero [of a s]
  by (simp add: sv_plus_def sv_minus_def sv_times_def sv_divide_def
      mv_plus_def mv_minus_def mv_times_def mv_divide_def)

text \<open>
  C10. Multi-variable engine: \<open>v = c\<close> leaves \<open>v\<close> as it was and returns the binding of
  \<open>v\<close>'s address to \<open>c\<close>; a leaf copied from \<open>v\<close> before evaluates to the value of whichever
  binding of \<open>v\<close> is made later, also after an earlier binding of \<open>v\<close> to another value.
\<close>

theorem C10_mv_assign_frame:
  "snd (mv_assign v c) = v
   \<and> fst (mv_assign v c) = \<lparr>ev_initAddress = initAddress v, ev_value = c\<rparr>
   \<and> mv_eval (MV_Variable (Variable_copy v)) (fst (mv_assign v c)) args = c
   \<and> mv_eval (MV_Variable (Variable_copy v))
        (fst (mv_assign (snd (mv_assign v c)) c')) args = c'"
  by (cases args) (simp_all add: mv_assign_def Variable_copy_def)


end
